theory Spec2Isabelle
  imports Complex_Main "HOL-Library.AList"
begin

section \<open>Python values and exceptions\<close>

text \<open>
  The middleware of \<^verbatim>\<open>fastapi_oidc_mw.py\<close> works on decoded JSON: the discovery document,
  the JWKS document, the token header and the token payload are all results of a JSON
  parser. A JSON object is an association list (the first binding of a name is the one a
  lookup finds); Python's \<^verbatim>\<open>None\<close> is \<open>JNull\<close>. Non-finite floats are not represented.
\<close>

datatype json =
    JNull
  | JBool bool
  | JInt int
  | JFloat real
  | JStr string
  | JArr "json list"
  | JObj "(string \<times> json) list"

text \<open>
  The messages of the two \<^verbatim>\<open>JWTError\<close>s the middleware raises itself are kept in
  structured form: \<open>Missing_kid\<close> is "Token missing 'kid' in header", \<open>Key_not_found kid\<close>
  is the f-string "Unable to find key '{kid}' in JWKS"; \<open>Jose_msg\<close> is a message of the
  jose library. The \<^verbatim>\<open>detail\<close> of an \<^verbatim>\<open>HTTPException\<close> is kept the same way.
\<close>

datatype jwt_msg = Missing_kid | Key_not_found json | Jose_msg string

datatype detail =
    Token_validation_failed jwt_msg
  | Authentication_required
  | Access_denied "string list"

text \<open>
  The exception classes that can travel through the middleware. \<open>JWTError\<close> stands for the
  class and its subclasses (an \<^verbatim>\<open>except JWTError\<close> catches them all); \<open>RequestError\<close>,
  \<open>HTTPStatusError\<close> and \<open>JSONDecodeError\<close> are what \<^verbatim>\<open>client.get\<close>,
  \<^verbatim>\<open>raise_for_status\<close> and \<^verbatim>\<open>response.json\<close> raise. Every one of them is an
  \<^verbatim>\<open>Exception\<close>.
\<close>

datatype exn =
    JWTError jwt_msg
  | JWKError
  | HTTPException nat detail
  | KeyError string
  | TypeError
  | AttributeError
  | RequestError
  | HTTPStatusError
  | JSONDecodeError

text \<open>\<^verbatim>\<open>obj[k]\<close> for a string \<open>k\<close>: only a dict accepts a string subscript.\<close>

fun py_getitem :: "json \<Rightarrow> string \<Rightarrow> exn + json" where
  "py_getitem (JObj kvs) k = (case map_of kvs k of None \<Rightarrow> Inl (KeyError k) | Some v \<Rightarrow> Inr v)"
| "py_getitem _ k = Inl TypeError"

text \<open>\<^verbatim>\<open>obj.get(k, d)\<close>: only a dict has the method.\<close>

definition dict_get :: "(string \<times> json) list \<Rightarrow> string \<Rightarrow> json \<Rightarrow> json" where
  "dict_get kvs k d = (case map_of kvs k of None \<Rightarrow> d | Some v \<Rightarrow> v)"

fun py_get :: "json \<Rightarrow> string \<Rightarrow> json \<Rightarrow> exn + json" where
  "py_get (JObj kvs) k d = Inr (dict_get kvs k d)"
| "py_get _ k d = Inl AttributeError"

fun is_object :: "json \<Rightarrow> bool" where
  "is_object (JObj kvs) = True"
| "is_object _ = False"

text \<open>Truth value of a Python object, as \<^verbatim>\<open>not x\<close> tests it.\<close>

fun truthy :: "json \<Rightarrow> bool" where
  "truthy JNull = False"
| "truthy (JBool b) = b"
| "truthy (JInt n) = (n \<noteq> 0)"
| "truthy (JFloat x) = (x \<noteq> 0)"
| "truthy (JStr s) = (s \<noteq> [])"
| "truthy (JArr xs) = (xs \<noteq> [])"
| "truthy (JObj kvs) = (kvs \<noteq> [])"

text \<open>
  Keys of a Python dict are compared by hash and equality: \<^verbatim>\<open>True\<close>, \<^verbatim>\<open>1\<close> and
  \<^verbatim>\<open>1.0\<close> are one key, lists and dicts are unhashable (\<^verbatim>\<open>TypeError\<close>).
\<close>

datatype dkey = KNone | KNum real | KStr string

fun py_hash :: "json \<Rightarrow> exn + dkey" where
  "py_hash JNull = Inr KNone"
| "py_hash (JBool b) = Inr (KNum (if b then 1 else 0))"
| "py_hash (JInt n) = Inr (KNum (of_int n))"
| "py_hash (JFloat x) = Inr (KNum x)"
| "py_hash (JStr s) = Inr (KStr s)"
| "py_hash (JArr xs) = Inl TypeError"
| "py_hash (JObj kvs) = Inl TypeError"

text \<open>\<^verbatim>\<open>for x in obj\<close>: a list gives its elements, a string its characters, a dict its keys.\<close>

fun py_iter :: "json \<Rightarrow> exn + json list" where
  "py_iter (JArr xs) = Inr xs"
| "py_iter (JStr s) = Inr (map (\<lambda>c. JStr [c]) s)"
| "py_iter (JObj kvs) = Inr (map (\<lambda>kv. JStr (fst kv)) kvs)"
| "py_iter _ = Inl TypeError"

fun is_prefix :: "'a list \<Rightarrow> 'a list \<Rightarrow> bool" where
  "is_prefix [] ys = True"
| "is_prefix (x # xs) [] = False"
| "is_prefix (x # xs) (y # ys) = (x = y \<and> is_prefix xs ys)"

fun substring :: "'a list \<Rightarrow> 'a list \<Rightarrow> bool" where
  "substring xs [] = (xs = [])"
| "substring xs (y # ys) = (is_prefix xs (y # ys) \<or> substring xs ys)"

text \<open>
  \<^verbatim>\<open>role in obj\<close> for a string \<open>role\<close>: element of a list, substring of a string, key of
  a dict; anything else is not a container.
\<close>

fun py_contains :: "json \<Rightarrow> string \<Rightarrow> exn + bool" where
  "py_contains (JArr xs) r = Inr (JStr r \<in> set xs)"
| "py_contains (JStr s) r = Inr (substring r s)"
| "py_contains (JObj kvs) r = Inr (r \<in> fst ` set kvs)"
| "py_contains _ r = Inl TypeError"

section \<open>The environment: network and the jose library\<close>

text \<open>
  One HTTP exchange \<^verbatim>\<open>client.get(url); response.raise_for_status(); response.json()\<close>
  ends in one of four ways. The network is a function from the URL to that outcome; it is
  an argument of every operation, so it may answer differently from call to call.
\<close>

datatype http_outcome = RequestFailed | BadStatus | NotJson | Json json

type_synonym network = "string \<Rightarrow> http_outcome"

text \<open>
  The arguments of the one call of \<^verbatim>\<open>jwt.decode\<close>, and the three functions of the jose
  library the middleware calls. The library is not part of the repository: it is a
  parameter, and each function may raise.
\<close>

record 'key decode_args =
  token :: string
  key :: 'key
  algorithms :: "string list"
  audience :: string
  issuer :: json

record 'key jose =
  jwk_construct :: "json \<Rightarrow> exn + 'key"
  get_unverified_header :: "string \<Rightarrow> exn + json"
  jwt_decode :: "'key decode_args \<Rightarrow> exn + json"

section \<open>The middleware\<close>

text \<open>
  The fields of \<^verbatim>\<open>KeycloakOIDCMiddleware\<close>. \<open>jwks_keys\<close> is the dict in insertion
  order. \<open>http_gets\<close> is not a field of the class: it records, in order, the URLs on
  which \<^verbatim>\<open>client.get\<close> has been called, so that statements about network calls can be
  made. Time is \<^verbatim>\<open>time.time()\<close>, passed in as \<open>now\<close>.

  Each operation is a coroutine whose only suspension point is the HTTP exchange. No
  field is written before that point, and the statements after it run without
  interleaving, so the states another coroutine can see are the state before the call
  and the state the call ends in, by \<^verbatim>\<open>return\<close> or by an exception. The model runs one
  call at a time; the interleaving of concurrent calls is not modelled.
\<close>

record 'key KeycloakOIDCMiddleware =
  keycloak_url :: string
  realm :: string
  client_id :: string
  jwks_cache_ttl :: int
  oidc_config :: json
  jwks_keys :: "(dkey \<times> 'key) list"
  jwks_last_fetch :: real
  http_gets :: "string list"

text \<open>\<^verbatim>\<open>__init__\<close>, lines 20-34, with the three names already resolved.\<close>

definition new_middleware :: "string \<Rightarrow> string \<Rightarrow> string \<Rightarrow> int \<Rightarrow> 'key KeycloakOIDCMiddleware" where
  "new_middleware url r cid ttl =
     \<lparr>keycloak_url = url, realm = r, client_id = cid, jwks_cache_ttl = ttl,
      oidc_config = JNull, jwks_keys = [], jwks_last_fetch = 0, http_gets = []\<rparr>"

fun http_error :: "http_outcome \<Rightarrow> exn + json" where
  "http_error RequestFailed = Inl RequestError"
| "http_error BadStatus = Inl HTTPStatusError"
| "http_error NotJson = Inl JSONDecodeError"
| "http_error (Json d) = Inr d"

text \<open>The HTTP exchange of lines 44-47 and 60-63; a URL that is not a string is refused
  by \<^verbatim>\<open>client.get\<close> before anything is sent.\<close>

definition http_get_json ::
  "network \<Rightarrow> json \<Rightarrow> 'key KeycloakOIDCMiddleware \<Rightarrow> (exn + json) \<times> 'key KeycloakOIDCMiddleware" where
  "http_get_json net url mw =
     (case url of
        JStr u \<Rightarrow> (http_error (net u), mw\<lparr>http_gets := http_gets mw @ [u]\<rparr>)
      | _ \<Rightarrow> (Inl TypeError, mw))"

definition config_url :: "'key KeycloakOIDCMiddleware \<Rightarrow> string" where
  "config_url mw =
     keycloak_url mw @ ''/realms/'' @ realm mw @ ''/.well-known/openid-configuration''"

text \<open>\<^verbatim>\<open>init\<close>, lines 39-52: the handler prints and raises the error again.\<close>

definition init ::
  "network \<Rightarrow> 'key KeycloakOIDCMiddleware \<Rightarrow> (exn + unit) \<times> 'key KeycloakOIDCMiddleware" where
  "init net mw =
     (case http_get_json net (JStr (config_url mw)) mw of
        (Inl e, mw1) \<Rightarrow> (Inl e, mw1)
      | (Inr doc, mw1) \<Rightarrow> (Inr (), mw1\<lparr>oidc_config := doc\<rparr>))"

text \<open>
  The loop of lines 67-69 on the dict being filled. The right-hand side
  \<^verbatim>\<open>jwk.construct(key_data)\<close> is evaluated before the key is hashed for the store. An
  exception leaves the loop with the entries stored so far.
\<close>

fun load_keys ::
  "(json \<Rightarrow> exn + 'key) \<Rightarrow> json list \<Rightarrow> (dkey \<times> 'key) list \<Rightarrow> exn option \<times> (dkey \<times> 'key) list" where
  "load_keys construct_key [] ks = (None, ks)"
| "load_keys construct_key (key_data # rest) ks =
     (case py_getitem key_data ''kid'' of
        Inl e \<Rightarrow> (Some e, ks)
      | Inr kid \<Rightarrow>
          (case construct_key key_data of
             Inl e \<Rightarrow> (Some e, ks)
           | Inr k \<Rightarrow>
               (case py_hash kid of
                  Inl e \<Rightarrow> (Some e, ks)
                | Inr h \<Rightarrow> load_keys construct_key rest (AList.update h k ks))))"

text \<open>Lines 61-63: the URL is read from the discovery document, then fetched.\<close>

definition fetch_jwks ::
  "network \<Rightarrow> 'key KeycloakOIDCMiddleware \<Rightarrow> (exn + json) \<times> 'key KeycloakOIDCMiddleware" where
  "fetch_jwks net mw =
     (case py_getitem (oidc_config mw) ''jwks_uri'' of
        Inl e \<Rightarrow> (Inl e, mw)
      | Inr url \<Rightarrow> http_get_json net url mw)"

text \<open>The handler of lines 74-77, and the \<^verbatim>\<open>return\<close> of line 79 that follows it.\<close>

definition on_fetch_error ::
  "exn \<Rightarrow> 'key KeycloakOIDCMiddleware \<Rightarrow> (exn + (dkey \<times> 'key) list) \<times> 'key KeycloakOIDCMiddleware" where
  "on_fetch_error e mw = (if jwks_keys mw = [] then (Inl e, mw) else (Inr (jwks_keys mw), mw))"

text \<open>
  \<^verbatim>\<open>get_jwks_keys\<close>, lines 54-79. Line 66 empties \<open>jwks_keys\<close> before
  \<^verbatim>\<open>jwks_data['keys']\<close> is evaluated on line 67.
\<close>

definition get_jwks_keys ::
  "'key jose \<Rightarrow> network \<Rightarrow> real \<Rightarrow> 'key KeycloakOIDCMiddleware
     \<Rightarrow> (exn + (dkey \<times> 'key) list) \<times> 'key KeycloakOIDCMiddleware" where
  "get_jwks_keys L net current_time mw =
     (if current_time - jwks_last_fetch mw > of_int (jwks_cache_ttl mw) then
        (case fetch_jwks net mw of
           (Inl e, mw1) \<Rightarrow> on_fetch_error e mw1
         | (Inr jwks_data, mw1) \<Rightarrow>
             (let mw2 = mw1\<lparr>jwks_keys := []\<rparr> in
              case py_getitem jwks_data ''keys'' of
                Inl e \<Rightarrow> on_fetch_error e mw2
              | Inr keys \<Rightarrow>
                  (case py_iter keys of
                     Inl e \<Rightarrow> on_fetch_error e mw2
                   | Inr entries \<Rightarrow>
                       (case load_keys (jwk_construct L) entries (jwks_keys mw2) of
                          (Some e, ks) \<Rightarrow> on_fetch_error e (mw2\<lparr>jwks_keys := ks\<rparr>)
                        | (None, ks) \<Rightarrow>
                            (Inr ks, mw2\<lparr>jwks_keys := ks, jwks_last_fetch := current_time\<rparr>)))))
      else (Inr (jwks_keys mw), mw))"

text \<open>
  Lines 92-97 of \<^verbatim>\<open>validate_token\<close>: the key set is obtained and the key of the
  token's \<open>kid\<close> is looked up in it.
\<close>

definition get_signing_key ::
  "'key jose \<Rightarrow> network \<Rightarrow> real \<Rightarrow> json \<Rightarrow> 'key KeycloakOIDCMiddleware
     \<Rightarrow> (exn + 'key) \<times> 'key KeycloakOIDCMiddleware" where
  "get_signing_key L net now kid mw =
     (case get_jwks_keys L net now mw of
        (Inl e, mw1) \<Rightarrow> (Inl e, mw1)
      | (Inr keys, mw1) \<Rightarrow>
          (case py_hash kid of
             Inl e \<Rightarrow> (Inl e, mw1)
           | Inr h \<Rightarrow>
               (case map_of keys h of
                  None \<Rightarrow> (Inl (JWTError (Key_not_found kid)), mw1)
                | Some k \<Rightarrow> (Inr k, mw1))))"

text \<open>The handler of lines 110-114: a \<^verbatim>\<open>JWTError\<close> becomes a 401, anything else passes.\<close>

fun on_JWTError :: "exn \<Rightarrow> exn" where
  "on_JWTError (JWTError m) = HTTPException 401 (Token_validation_failed m)"
| "on_JWTError e = e"

text \<open>\<^verbatim>\<open>validate_token\<close>, lines 81-114.\<close>

definition validate_token ::
  "'key jose \<Rightarrow> network \<Rightarrow> real \<Rightarrow> string \<Rightarrow> 'key KeycloakOIDCMiddleware
     \<Rightarrow> (exn + json) \<times> 'key KeycloakOIDCMiddleware" where
  "validate_token L net now tok mw =
     (case get_unverified_header L tok of
        Inl e \<Rightarrow> (Inl (on_JWTError e), mw)
      | Inr unverified_header \<Rightarrow>
          (case py_get unverified_header ''kid'' JNull of
             Inl e \<Rightarrow> (Inl (on_JWTError e), mw)
           | Inr kid \<Rightarrow>
               if \<not> truthy kid then (Inl (on_JWTError (JWTError Missing_kid)), mw)
               else
                 (case get_signing_key L net now kid mw of
                    (Inl e, mw1) \<Rightarrow> (Inl (on_JWTError e), mw1)
                  | (Inr k, mw1) \<Rightarrow>
                      (case py_getitem (oidc_config mw1) ''issuer'' of
                         Inl e \<Rightarrow> (Inl (on_JWTError e), mw1)
                       | Inr iss \<Rightarrow>
                           (case jwt_decode L
                                   \<lparr>token = tok, key = k, algorithms = [''RS256''],
                                    audience = client_id mw1, issuer = iss\<rparr> of
                              Inl e \<Rightarrow> (Inl (on_JWTError e), mw1)
                            | Inr payload \<Rightarrow> (Inr payload, mw1))))))"

text \<open>The generator of line 122 under \<^verbatim>\<open>any\<close>, which stops at the first true value.\<close>

fun any_role_in :: "json \<Rightarrow> string list \<Rightarrow> exn + bool" where
  "any_role_in user_roles [] = Inr False"
| "any_role_in user_roles (role # rest) =
     (case py_contains user_roles role of
        Inl e \<Rightarrow> Inl e
      | Inr b \<Rightarrow> if b then Inr True else any_role_in user_roles rest)"

text \<open>\<^verbatim>\<open>has_role\<close>, lines 116-122.\<close>

definition has_role :: "json \<Rightarrow> string list \<Rightarrow> exn + bool" where
  "has_role user_payload required_roles =
     (if required_roles = [] then Inr True
      else
        (case py_get user_payload ''realm_access'' (JObj []) of
           Inl e \<Rightarrow> Inl e
         | Inr realm_access \<Rightarrow>
             (case py_get realm_access ''roles'' (JArr []) of
                Inl e \<Rightarrow> Inl e
              | Inr user_roles \<Rightarrow> any_role_in user_roles required_roles)))"

text \<open>
  The dict display of lines 135-143, which lines 160-168 repeat: the entries are
  evaluated in order, and the first failing \<^verbatim>\<open>.get\<close> raises.
\<close>

definition user_record :: "json \<Rightarrow> exn + json" where
  "user_record payload =
     (case py_get payload ''sub'' JNull of
        Inl e \<Rightarrow> Inl e
      | Inr sub \<Rightarrow>
     (case py_get payload ''preferred_username'' JNull of
        Inl e \<Rightarrow> Inl e
      | Inr username \<Rightarrow>
     (case py_get payload ''email'' JNull of
        Inl e \<Rightarrow> Inl e
      | Inr email \<Rightarrow>
     (case py_get payload ''name'' JNull of
        Inl e \<Rightarrow> Inl e
      | Inr name \<Rightarrow>
     (case py_get payload ''realm_access'' (JObj []) of
        Inl e \<Rightarrow> Inl e
      | Inr realm_access \<Rightarrow>
     (case py_get realm_access ''roles'' (JArr []) of
        Inl e \<Rightarrow> Inl e
      | Inr roles \<Rightarrow>
     (case py_get payload ''resource_access'' (JObj []) of
        Inl e \<Rightarrow> Inl e
      | Inr client_roles \<Rightarrow>
          Inr (JObj [(''id'', sub), (''username'', username), (''email'', email),
                     (''name'', name), (''roles'', roles), (''client_roles'', client_roles),
                     (''token_payload'', payload)]))))))))"

fun is_HTTPException :: "exn \<Rightarrow> bool" where
  "is_HTTPException (HTTPException c d) = True"
| "is_HTTPException e = False"

text \<open>
  \<^verbatim>\<open>get_current_user\<close>, lines 124-145. \<open>credentials\<close> is the bearer token, if the
  request carried one. The result \<open>JNull\<close> is Python's \<^verbatim>\<open>None\<close>.
\<close>

definition get_current_user ::
  "'key jose \<Rightarrow> network \<Rightarrow> real \<Rightarrow> string option \<Rightarrow> 'key KeycloakOIDCMiddleware
     \<Rightarrow> (exn + json) \<times> 'key KeycloakOIDCMiddleware" where
  "get_current_user L net now credentials mw =
     (case credentials of
        None \<Rightarrow> (Inr JNull, mw)
      | Some tok \<Rightarrow>
          (case validate_token L net now tok mw of
             (Inl e, mw1) \<Rightarrow> (if is_HTTPException e then (Inr JNull, mw1) else (Inl e, mw1))
           | (Inr payload, mw1) \<Rightarrow>
               (case user_record payload of
                  Inl e \<Rightarrow> (if is_HTTPException e then (Inr JNull, mw1) else (Inl e, mw1))
                | Inr user \<Rightarrow> (Inr user, mw1))))"

text \<open>\<^verbatim>\<open>_require_auth\<close>, lines 149-168.\<close>

definition require_auth ::
  "'key jose \<Rightarrow> network \<Rightarrow> real \<Rightarrow> string option \<Rightarrow> 'key KeycloakOIDCMiddleware
     \<Rightarrow> (exn + json) \<times> 'key KeycloakOIDCMiddleware" where
  "require_auth L net now credentials mw =
     (case credentials of
        None \<Rightarrow> (Inl (HTTPException 401 Authentication_required), mw)
      | Some tok \<Rightarrow>
          (case validate_token L net now tok mw of
             (Inl e, mw1) \<Rightarrow> (Inl e, mw1)
           | (Inr payload, mw1) \<Rightarrow>
               (case user_record payload of
                  Inl e \<Rightarrow> (Inl e, mw1)
                | Inr user \<Rightarrow> (Inr user, mw1))))"

text \<open>\<^verbatim>\<open>_require_roles\<close>, lines 174-183.\<close>

definition require_roles ::
  "'key jose \<Rightarrow> network \<Rightarrow> real \<Rightarrow> string list \<Rightarrow> string option \<Rightarrow> 'key KeycloakOIDCMiddleware
     \<Rightarrow> (exn + json) \<times> 'key KeycloakOIDCMiddleware" where
  "require_roles L net now required_roles credentials mw =
     (case require_auth L net now credentials mw of
        (Inl e, mw1) \<Rightarrow> (Inl e, mw1)
      | (Inr current_user, mw1) \<Rightarrow>
          (case py_getitem current_user ''token_payload'' of
             Inl e \<Rightarrow> (Inl e, mw1)
           | Inr payload \<Rightarrow>
               (case has_role payload required_roles of
                  Inl e \<Rightarrow> (Inl e, mw1)
                | Inr ok \<Rightarrow>
                    if ok then (Inr current_user, mw1)
                    else (Inl (HTTPException 403 (Access_denied required_roles)), mw1))))"

text \<open>
  A token header that claims the algorithm \<open>a\<close>: the header with its \<^verbatim>\<open>alg\<close> entry set
  to \<open>a\<close>. It serves to compare two runs on tokens that differ in that entry only.
\<close>

definition with_header_alg :: "json \<Rightarrow> json \<Rightarrow> json" where
  "with_header_alg a hdr = (case hdr of JObj kvs \<Rightarrow> JObj (AList.update ''alg'' a kvs) | _ \<Rightarrow> hdr)"

section \<open>A concrete provider\<close>

text \<open>
  The scenario of the specification: a discovery document with issuer
  \<^verbatim>\<open>https://idp/realms/r\<close>, a JWKS with the one key \<open>k1\<close>, a token signed by it for the
  client \<^verbatim>\<open>web-client\<close> whose payload carries the realm role \<open>user\<close>. The library instance
  keeps a key as its JWK, refuses a JWK without a string \<open>kty\<close>, reads the header of three
  tokens and verifies the first.
\<close>

definition demo_payload :: json where
  "demo_payload =
     JObj [(''sub'', JStr ''u1''), (''aud'', JStr ''web-client''),
           (''iss'', JStr ''https://idp/realms/r''),
           (''realm_access'', JObj [(''roles'', JArr [JStr ''user''])])]"

definition demo_key :: json where
  "demo_key = JObj [(''kid'', JStr ''k1''), (''kty'', JStr ''RSA'')]"

definition demo_discovery :: json where
  "demo_discovery =
     JObj [(''issuer'', JStr ''https://idp/realms/r''),
           (''jwks_uri'', JStr ''https://idp/realms/r/jwks'')]"

definition demo_jose :: "json jose" where
  "demo_jose =
     \<lparr>jwk_construct =
        (\<lambda>key_data. case py_get key_data ''kty'' JNull of
                      Inr (JStr t) \<Rightarrow> Inr key_data
                    | _ \<Rightarrow> Inl JWKError),
      get_unverified_header =
        (\<lambda>t. if t = ''token-k1'' then Inr (JObj [(''alg'', JStr ''RS256''), (''kid'', JStr ''k1'')])
             else if t = ''token-k2'' then Inr (JObj [(''alg'', JStr ''RS256''), (''kid'', JStr ''k2'')])
             else if t = ''token-nokid'' then Inr (JObj [(''alg'', JStr ''RS256'')])
             else Inl (JWTError (Jose_msg ''Error decoding token headers.''))),
      jwt_decode =
        (\<lambda>a. if token a = ''token-k1'' \<and> key a = demo_key \<and> algorithms a = [''RS256'']
                \<and> audience a = ''web-client'' \<and> issuer a = JStr ''https://idp/realms/r''
             then Inr demo_payload
             else Inl (JWTError (Jose_msg ''Signature verification failed.'')))\<rparr>"

text \<open>A network on which the JWKS endpoint answers with the document \<open>doc\<close>, and one on
  which every request fails.\<close>

definition jwks_net :: "json \<Rightarrow> network" where
  "jwks_net doc url = (if url = ''https://idp/realms/r/jwks'' then Json doc else RequestFailed)"

definition down_net :: network where
  "down_net url = RequestFailed"

definition demo_jwks :: json where
  "demo_jwks = JObj [(''keys'', JArr [demo_key])]"

text \<open>The middleware after \<^verbatim>\<open>init\<close>, and after the refresh at time 1000 that followed.\<close>

definition demo_mw0 :: "json KeycloakOIDCMiddleware" where
  "demo_mw0 =
     \<lparr>keycloak_url = ''http://idp'', realm = ''r'', client_id = ''web-client'',
      jwks_cache_ttl = 300, oidc_config = demo_discovery, jwks_keys = [],
      jwks_last_fetch = 0,
      http_gets = [''http://idp/realms/r/.well-known/openid-configuration'']\<rparr>"

definition demo_mw1 :: "json KeycloakOIDCMiddleware" where
  "demo_mw1 =
     demo_mw0\<lparr>jwks_keys := [(KStr ''k1'', demo_key)], jwks_last_fetch := 1000,
              http_gets := [''http://idp/realms/r/.well-known/openid-configuration'',
                            ''https://idp/realms/r/jwks'']\<rparr>"

section \<open>The concrete provider at work\<close>

lemma demo_init:
  "init (\<lambda>u. if u = ''http://idp/realms/r/.well-known/openid-configuration'' then Json demo_discovery else RequestFailed)
        (new_middleware ''http://idp'' ''r'' ''web-client'' 300) = (Inr (), demo_mw0)"
  by (simp add: init_def http_get_json_def config_url_def new_middleware_def demo_mw0_def)

lemma demo_refresh:
  "get_jwks_keys demo_jose (jwks_net demo_jwks) 1000 demo_mw0 = (Inr [(KStr ''k1'', demo_key)], demo_mw1)"
  by (simp add: get_jwks_keys_def fetch_jwks_def http_get_json_def demo_mw0_def demo_mw1_def
      demo_discovery_def jwks_net_def demo_jwks_def demo_key_def demo_jose_def dict_get_def)

lemma demo_header:
  "get_unverified_header demo_jose t =
     (if t = ''token-k1'' then Inr (JObj [(''alg'', JStr ''RS256''), (''kid'', JStr ''k1'')])
      else if t = ''token-k2'' then Inr (JObj [(''alg'', JStr ''RS256''), (''kid'', JStr ''k2'')])
      else if t = ''token-nokid'' then Inr (JObj [(''alg'', JStr ''RS256'')])
      else Inl (JWTError (Jose_msg ''Error decoding token headers.'')))"
  by (simp add: demo_jose_def)

lemma demo_decode:
  "jwt_decode demo_jose a =
     (if token a = ''token-k1'' \<and> key a = demo_key \<and> algorithms a = [''RS256'']
         \<and> audience a = ''web-client'' \<and> issuer a = JStr ''https://idp/realms/r''
      then Inr demo_payload
      else Inl (JWTError (Jose_msg ''Signature verification failed.'')))"
  by (simp add: demo_jose_def)

lemma demo_signing_key:
  "get_signing_key demo_jose (jwks_net demo_jwks) 1000 (JStr ''k1'') demo_mw0 = (Inr demo_key, demo_mw1)"
  by (simp add: get_signing_key_def demo_refresh)

lemma demo_validate:
  "validate_token demo_jose (jwks_net demo_jwks) 1000 ''token-k1'' demo_mw0 = (Inr demo_payload, demo_mw1)"
  by (simp add: validate_token_def demo_header demo_signing_key dict_get_def)
     (simp add: demo_decode demo_mw1_def demo_mw0_def demo_discovery_def)

section \<open>Facts about the key cache\<close>

lemma get_jwks_keys_fresh:
  "now - jwks_last_fetch mw \<le> of_int (jwks_cache_ttl mw) \<Longrightarrow>
   get_jwks_keys L net now mw = (Inr (jwks_keys mw), mw)"
  by (simp add: get_jwks_keys_def)

lemma on_fetch_error_state: "snd (on_fetch_error e mw) = mw"
  by (simp add: on_fetch_error_def)

lemma get_jwks_keys_stale_gets:
  assumes "py_getitem (oidc_config mw) ''jwks_uri'' = Inr (JStr url)"
    and "now - jwks_last_fetch mw > of_int (jwks_cache_ttl mw)"
  shows "http_gets (snd (get_jwks_keys L net now mw)) = http_gets mw @ [url]"
  using assms
  by (simp add: get_jwks_keys_def fetch_jwks_def http_get_json_def on_fetch_error_state Let_def
      split: sum.splits prod.splits option.splits)

lemma get_jwks_keys_config:
  "oidc_config (snd (get_jwks_keys L net now mw)) = oidc_config mw \<and>
   jwks_cache_ttl (snd (get_jwks_keys L net now mw)) = jwks_cache_ttl mw \<and>
   client_id (snd (get_jwks_keys L net now mw)) = client_id mw"
  by (auto simp: get_jwks_keys_def fetch_jwks_def http_get_json_def on_fetch_error_state Let_def
      split: sum.splits prod.splits option.splits json.splits)

lemma get_signing_key_state:
  "snd (get_signing_key L net now kid mw) = snd (get_jwks_keys L net now mw)"
  by (simp add: get_signing_key_def split: sum.splits prod.splits option.splits)

lemma get_jwks_keys_last_fetch:
  "jwks_last_fetch (snd (get_jwks_keys L net now mw)) = jwks_last_fetch mw \<or>
   jwks_last_fetch (snd (get_jwks_keys L net now mw)) = now"
  by (auto simp: get_jwks_keys_def fetch_jwks_def http_get_json_def on_fetch_error_state Let_def
      split: sum.splits prod.splits option.splits json.splits)

lemma get_jwks_keys_fetch_failed:
  assumes "now - jwks_last_fetch mw > of_int (jwks_cache_ttl mw)"
    and "fetch_jwks net mw = (Inl e, mw1)"
  shows "get_jwks_keys L net now mw = on_fetch_error e mw1"
  using assms by (simp add: get_jwks_keys_def)

lemma fetch_jwks_keys: "fetch_jwks net mw = (r, mw1) \<Longrightarrow> jwks_keys mw1 = jwks_keys mw"
  by (auto simp: fetch_jwks_def http_get_json_def split: sum.splits json.splits)

section \<open>Authorization\<close>




section \<open>Failure of the fetch\<close>

text \<open>
  The part of fail-closed that holds: when no key is cached, the cache is stale and the
  HTTP exchange of lines 61-63 fails (no usable \<^verbatim>\<open>jwks_uri\<close>, request error, error
  status or a body that is not JSON), the key lookup raises that very error for every
  \<open>kid\<close>, and the cache stays empty. A refresh that fails later, while the entries are
  parsed, is treated in the last section.
\<close>

lemma fetch_failure_propagates_on_empty_cache:
  assumes "jwks_keys mw = []"
    and "now - jwks_last_fetch mw > of_int (jwks_cache_ttl mw)"
    and "fetch_jwks net mw = (Inl e, mw1)"
  shows "get_signing_key L net now kid mw = (Inl e, mw1) \<and> jwks_keys mw1 = []"
proof -
  have empty: "jwks_keys mw1 = []"
    using assms(1,3) fetch_jwks_keys by fastforce
  have "get_jwks_keys L net now mw = on_fetch_error e mw1"
    using assms(2,3) by (rule get_jwks_keys_fetch_failed)
  then have "get_jwks_keys L net now mw = (Inl e, mw1)"
    using empty by (simp add: on_fetch_error_def)
  then show ?thesis
    using empty by (simp add: get_signing_key_def)
qed

lemma fetch_failure_propagates_example:
  "jwks_keys demo_mw0 = [] \<and>
   1000 - jwks_last_fetch demo_mw0 > of_int (jwks_cache_ttl demo_mw0) \<and>
   fetch_jwks down_net demo_mw0 =
     (Inl RequestError, demo_mw0\<lparr>http_gets := http_gets demo_mw0 @ [''https://idp/realms/r/jwks'']\<rparr>) \<and>
   get_signing_key demo_jose down_net 1000 (JStr ''k1'') demo_mw0 =
     (Inl RequestError, demo_mw0\<lparr>http_gets := http_gets demo_mw0 @ [''https://idp/realms/r/jwks'']\<rparr>)"
proof -
  have h1: "jwks_keys demo_mw0 = []"
    by (simp add: demo_mw0_def)
  have h2: "1000 - jwks_last_fetch demo_mw0 > of_int (jwks_cache_ttl demo_mw0)"
    by (simp add: demo_mw0_def)
  have h3: "fetch_jwks down_net demo_mw0 =
     (Inl RequestError, demo_mw0\<lparr>http_gets := http_gets demo_mw0 @ [''https://idp/realms/r/jwks'']\<rparr>)"
    by (simp add: fetch_jwks_def http_get_json_def down_net_def demo_mw0_def demo_discovery_def)
  show ?thesis
    using h1 h2 h3 fetch_failure_propagates_on_empty_cache [OF h1 h2 h3, of demo_jose "JStr ''k1''"] by simp
qed

section \<open>The hot path\<close>

lemma get_signing_key_fresh:
  assumes "now - jwks_last_fetch mw \<le> of_int (jwks_cache_ttl mw)" and "py_hash kid = Inr h"
  shows "get_signing_key L net now kid mw =
     (case map_of (jwks_keys mw) h of
        None \<Rightarrow> (Inl (JWTError (Key_not_found kid)), mw)
      | Some k \<Rightarrow> (Inr k, mw))"
  using assms by (simp add: get_signing_key_def get_jwks_keys_fresh)

lemma get_signing_key_hashed:
  "get_signing_key L net now kid mw = (Inr k, mw1) \<Longrightarrow> \<exists>h. py_hash kid = Inr h"
  by (auto simp: get_signing_key_def split: sum.splits prod.splits option.splits)

text \<open>
  C1, as the code has it. While the cache is fresh (\<open>now - jwks_last_fetch \<le> ttl\<close>) the
  key lookup never fetches, whether or not the \<open>kid\<close> is cached: a cached \<open>kid\<close> gives
  its key and an absent one raises the unknown-key \<^verbatim>\<open>JWTError\<close> at once, which
  \<^verbatim>\<open>validate_token\<close> turns into a 401; the state is unchanged in both cases. Staleness
  alone triggers a refresh. With a discovery document that names a JWKS URL, a key is
  returned without a network call only when the cache is fresh and the \<open>kid\<close> is cached.
\<close>

theorem fresh_cache_is_never_refreshed:
  "(now - jwks_last_fetch mw \<le> of_int (jwks_cache_ttl mw) \<longrightarrow> py_hash kid = Inr h \<longrightarrow>
      get_signing_key L net now kid mw =
        (case map_of (jwks_keys mw) h of
           None \<Rightarrow> (Inl (JWTError (Key_not_found kid)), mw)
         | Some k \<Rightarrow> (Inr k, mw))) \<and>
   (now - jwks_last_fetch mw \<le> of_int (jwks_cache_ttl mw) \<longrightarrow>
      get_unverified_header L tok = Inr hdr \<longrightarrow> py_get hdr ''kid'' JNull = Inr kid \<longrightarrow>
      truthy kid \<longrightarrow> py_hash kid = Inr h \<longrightarrow> map_of (jwks_keys mw) h = None \<longrightarrow>
      validate_token L net now tok mw =
        (Inl (HTTPException 401 (Token_validation_failed (Key_not_found kid))), mw)) \<and>
   (py_getitem (oidc_config mw) ''jwks_uri'' = Inr (JStr url) \<longrightarrow>
      get_signing_key L net now kid mw = (Inr k', mw1) \<longrightarrow> http_gets mw1 = http_gets mw \<longrightarrow>
      now - jwks_last_fetch mw \<le> of_int (jwks_cache_ttl mw) \<and> mw1 = mw \<and>
      (\<exists>h'. py_hash kid = Inr h' \<and> map_of (jwks_keys mw) h' = Some k'))"
proof (intro conjI impI)
  assume "now - jwks_last_fetch mw \<le> of_int (jwks_cache_ttl mw)" and "py_hash kid = Inr h"
  then show "get_signing_key L net now kid mw =
        (case map_of (jwks_keys mw) h of
           None \<Rightarrow> (Inl (JWTError (Key_not_found kid)), mw)
         | Some k \<Rightarrow> (Inr k, mw))"
    by (rule get_signing_key_fresh)
next
  assume fresh: "now - jwks_last_fetch mw \<le> of_int (jwks_cache_ttl mw)"
    and "get_unverified_header L tok = Inr hdr" "py_get hdr ''kid'' JNull = Inr kid"
      "truthy kid" "py_hash kid = Inr h" "map_of (jwks_keys mw) h = None"
  then show "validate_token L net now tok mw =
        (Inl (HTTPException 401 (Token_validation_failed (Key_not_found kid))), mw)"
    by (simp add: validate_token_def get_signing_key_fresh)
next
  assume uri: "py_getitem (oidc_config mw) ''jwks_uri'' = Inr (JStr url)"
    and call: "get_signing_key L net now kid mw = (Inr k', mw1)"
    and gets: "http_gets mw1 = http_gets mw"
  have state: "mw1 = snd (get_jwks_keys L net now mw)"
    using call get_signing_key_state [of L net now kid mw] by simp
  show fresh: "now - jwks_last_fetch mw \<le> of_int (jwks_cache_ttl mw)"
  proof (rule ccontr)
    assume "\<not> now - jwks_last_fetch mw \<le> of_int (jwks_cache_ttl mw)"
    then have "http_gets mw1 = http_gets mw @ [url]"
      using uri state get_jwks_keys_stale_gets [of mw url now L net] by simp
    with gets show False by simp
  qed
  obtain h' where h': "py_hash kid = Inr h'"
    using get_signing_key_hashed [OF call] by (elim exE)
  have eq: "(Inr k', mw1) =
     (case map_of (jwks_keys mw) h' of
        None \<Rightarrow> (Inl (JWTError (Key_not_found kid)), mw)
      | Some k \<Rightarrow> (Inr k, mw))"
    using get_signing_key_fresh [OF fresh h', of L net] call by simp
  then show "mw1 = mw"
    by (simp split: option.splits)
  from eq have "map_of (jwks_keys mw) h' = Some k'"
    by (simp split: option.splits)
  with h' show "\<exists>h'. py_hash kid = Inr h' \<and> map_of (jwks_keys mw) h' = Some k'"
    by blast
qed

theorem fresh_cache_is_never_refreshed_witness:
  "1100 - jwks_last_fetch demo_mw1 \<le> of_int (jwks_cache_ttl demo_mw1) \<and>
   py_hash (JStr ''k1'') = Inr (KStr ''k1'') \<and>
   get_signing_key demo_jose down_net 1100 (JStr ''k1'') demo_mw1 = (Inr demo_key, demo_mw1) \<and>
   py_getitem (oidc_config demo_mw1) ''jwks_uri'' = Inr (JStr ''https://idp/realms/r/jwks'') \<and>
   http_gets demo_mw1 = http_gets demo_mw1 \<and>
   map_of (jwks_keys demo_mw1) (KStr ''k1'') = Some demo_key"
  using fresh_cache_is_never_refreshed
    [of 1100 demo_mw1 "JStr ''k1''" "KStr ''k1''" demo_jose down_net "''token-k1''"
        "JObj [(''alg'', JStr ''RS256''), (''kid'', JStr ''k1'')]" "''https://idp/realms/r/jwks''"
        demo_key demo_mw1]
  by (simp add: demo_mw1_def demo_mw0_def demo_discovery_def)

text \<open>
  C1 as stated fails: at time 1100 the cache filled at time 1000 is fresh and has no key
  \<open>k2\<close>; the provider has rotated to \<open>k2\<close>, yet the lookup raises without any request
  (the state, with its record of requests, is unchanged).
\<close>

theorem fresh_cache_miss_counterexample:
  "1100 - jwks_last_fetch demo_mw1 \<le> of_int (jwks_cache_ttl demo_mw1) \<and>
   map_of (jwks_keys demo_mw1) (KStr ''k2'') = None \<and>
   get_signing_key demo_jose
       (jwks_net (JObj [(''keys'', JArr [JObj [(''kid'', JStr ''k2''), (''kty'', JStr ''RSA'')]])]))
       1100 (JStr ''k2'') demo_mw1 =
     (Inl (JWTError (Key_not_found (JStr ''k2''))), demo_mw1) \<and>
   validate_token demo_jose
       (jwks_net (JObj [(''keys'', JArr [JObj [(''kid'', JStr ''k2''), (''kty'', JStr ''RSA'')]])]))
       1100 ''token-k2'' demo_mw1 =
     (Inl (HTTPException 401 (Token_validation_failed (Key_not_found (JStr ''k2'')))), demo_mw1)"
proof -
  have fresh: "1100 - jwks_last_fetch demo_mw1 \<le> of_int (jwks_cache_ttl demo_mw1)"
    by (simp add: demo_mw1_def demo_mw0_def)
  have absent: "map_of (jwks_keys demo_mw1) (KStr ''k2'') = None"
    by (simp add: demo_mw1_def demo_mw0_def)
  have key: "get_signing_key demo_jose net 1100 (JStr ''k2'') demo_mw1 =
     (Inl (JWTError (Key_not_found (JStr ''k2''))), demo_mw1)" for net
    using fresh absent by (simp add: get_signing_key_def get_jwks_keys_fresh)
  have "validate_token demo_jose net 1100 ''token-k2'' demo_mw1 =
     (Inl (HTTPException 401 (Token_validation_failed (Key_not_found (JStr ''k2'')))), demo_mw1)" for net
    by (simp add: validate_token_def demo_header dict_get_def key)
  with fresh absent key show ?thesis by simp
qed

section \<open>Refreshing by age\<close>

lemma get_signing_key_gets_stale:
  assumes "py_getitem (oidc_config mw) ''jwks_uri'' = Inr (JStr url)"
    and "now - jwks_last_fetch mw > of_int (jwks_cache_ttl mw)"
    and "get_signing_key L net now kid mw = (r, mw1)"
  shows "http_gets mw1 = http_gets mw @ [url]"
proof -
  have "mw1 = snd (get_jwks_keys L net now mw)"
    using assms(3) get_signing_key_state [of L net now kid mw] by simp
  then show ?thesis
    using assms(1,2) by (simp add: get_jwks_keys_stale_gets)
qed

lemma get_signing_key_unchanged_fresh:
  assumes "now - jwks_last_fetch mw \<le> of_int (jwks_cache_ttl mw)"
    and "get_signing_key L net now kid mw = (r, mw1)"
  shows "mw1 = mw"
proof -
  have "mw1 = snd (get_jwks_keys L net now mw)"
    using assms(2) get_signing_key_state [of L net now kid mw] by simp
  then show ?thesis
    using assms(1) by (simp add: get_jwks_keys_fresh)
qed

lemma get_signing_key_config:
  assumes "get_signing_key L net now kid mw = (r, mw1)"
  shows "oidc_config mw1 = oidc_config mw \<and> jwks_cache_ttl mw1 = jwks_cache_ttl mw"
proof -
  have "mw1 = snd (get_jwks_keys L net now mw)"
    using assms get_signing_key_state [of L net now kid mw] by simp
  then show ?thesis
    by (simp add: get_jwks_keys_config)
qed

lemma demo_second_call:
  "get_signing_key demo_jose down_net 1200 (JStr ''k1'') demo_mw1 = (Inr demo_key, demo_mw1)"
  by (simp add: get_signing_key_def get_jwks_keys_def demo_mw1_def demo_mw0_def)

lemma demo_third_call:
  "get_signing_key demo_jose (jwks_net demo_jwks) 1301 (JStr ''k1'') demo_mw1 =
     (Inr demo_key,
      demo_mw1\<lparr>jwks_last_fetch := 1301,
               http_gets := http_gets demo_mw1 @ [''https://idp/realms/r/jwks'']\<rparr>)"
  by (simp add: get_signing_key_def get_jwks_keys_def fetch_jwks_def http_get_json_def
      demo_mw0_def demo_mw1_def demo_discovery_def jwks_net_def demo_jwks_def demo_key_def
      demo_jose_def dict_get_def)

text \<open>
  C7. The key lookup sends a request only when \<open>now - jwks_last_fetch > ttl\<close>. Starting
  from a stale cache and a discovery document that names the JWKS URL: a first call at
  \<open>t1\<close> sends one request; if it refreshes the cache (so that \<open>jwks_last_fetch\<close> is
  \<open>t1\<close>), a second call within the window, \<open>t2 - t1 \<le> ttl\<close>, sends none, which makes one
  request in total for the two; a third call after the window, \<open>t3 - t1 > ttl\<close>, sends
  exactly one more. This holds whatever the network answers to the later calls and
  whichever \<open>kid\<close> is asked for.
\<close>

theorem one_fetch_per_ttl_window:
  assumes uri: "py_getitem (oidc_config mw) ''jwks_uri'' = Inr (JStr url)"
    and stale: "t1 - jwks_last_fetch mw > of_int (jwks_cache_ttl mw)"
    and call1: "get_signing_key L net1 t1 kid1 mw = (r1, mw1)"
    and refreshed: "jwks_last_fetch mw1 = t1"
    and within: "t2 - t1 \<le> of_int (jwks_cache_ttl mw)"
    and call2: "get_signing_key L net2 t2 kid2 mw1 = (r2, mw2)"
    and elapsed: "t3 - t1 > of_int (jwks_cache_ttl mw)"
    and call3: "get_signing_key L net3 t3 kid3 mw2 = (r3, mw3)"
  shows "http_gets mw1 = http_gets mw @ [url] \<and>
         http_gets mw2 = http_gets mw @ [url] \<and>
         http_gets mw3 = http_gets mw @ [url, url] \<and>
         (http_gets (snd (get_signing_key L net now kid m)) \<noteq> http_gets m \<longrightarrow>
            now - jwks_last_fetch m > of_int (jwks_cache_ttl m))"
proof (intro conjI impI)
  show g1: "http_gets mw1 = http_gets mw @ [url]"
    using uri stale call1 by (rule get_signing_key_gets_stale)
  have c1: "oidc_config mw1 = oidc_config mw \<and> jwks_cache_ttl mw1 = jwks_cache_ttl mw"
    using call1 by (rule get_signing_key_config)
  have "t2 - jwks_last_fetch mw1 \<le> of_int (jwks_cache_ttl mw1)"
    using within refreshed c1 by simp
  then have same: "mw2 = mw1"
    using call2 by (rule get_signing_key_unchanged_fresh)
  with g1 show "http_gets mw2 = http_gets mw @ [url]"
    by simp
  have "py_getitem (oidc_config mw2) ''jwks_uri'' = Inr (JStr url)"
    and "t3 - jwks_last_fetch mw2 > of_int (jwks_cache_ttl mw2)"
    using uri elapsed refreshed c1 same by simp_all
  then have "http_gets mw3 = http_gets mw2 @ [url]"
    using call3 by (rule get_signing_key_gets_stale)
  with same g1 show "http_gets mw3 = http_gets mw @ [url, url]"
    by simp
next
  assume changed: "http_gets (snd (get_signing_key L net now kid m)) \<noteq> http_gets m"
  show "now - jwks_last_fetch m > of_int (jwks_cache_ttl m)"
  proof (rule ccontr)
    assume "\<not> now - jwks_last_fetch m > of_int (jwks_cache_ttl m)"
    then have "now - jwks_last_fetch m \<le> of_int (jwks_cache_ttl m)"
      by simp
    then have "snd (get_signing_key L net now kid m) = m"
      by (simp add: get_signing_key_state get_jwks_keys_fresh)
    with changed show False by simp
  qed
qed

theorem one_fetch_per_ttl_window_witness:
  "py_getitem (oidc_config demo_mw0) ''jwks_uri'' = Inr (JStr ''https://idp/realms/r/jwks'') \<and>
   1000 - jwks_last_fetch demo_mw0 > of_int (jwks_cache_ttl demo_mw0) \<and>
   get_signing_key demo_jose (jwks_net demo_jwks) 1000 (JStr ''k1'') demo_mw0 = (Inr demo_key, demo_mw1) \<and>
   jwks_last_fetch demo_mw1 = 1000 \<and>
   (1200::real) - 1000 \<le> of_int (jwks_cache_ttl demo_mw0) \<and>
   get_signing_key demo_jose down_net 1200 (JStr ''k1'') demo_mw1 = (Inr demo_key, demo_mw1) \<and>
   (1301::real) - 1000 > of_int (jwks_cache_ttl demo_mw0) \<and>
   http_gets demo_mw1 = http_gets demo_mw0 @ [''https://idp/realms/r/jwks''] \<and>
   http_gets (snd (get_signing_key demo_jose (jwks_net demo_jwks) 1301 (JStr ''k1'') demo_mw1)) =
     http_gets demo_mw0 @ [''https://idp/realms/r/jwks'', ''https://idp/realms/r/jwks'']"
proof -
  have uri: "py_getitem (oidc_config demo_mw0) ''jwks_uri'' = Inr (JStr ''https://idp/realms/r/jwks'')"
    by (simp add: demo_mw0_def demo_discovery_def)
  have stale: "1000 - jwks_last_fetch demo_mw0 > of_int (jwks_cache_ttl demo_mw0)"
    by (simp add: demo_mw0_def)
  have refreshed: "jwks_last_fetch demo_mw1 = 1000"
    by (simp add: demo_mw1_def)
  have within: "(1200::real) - 1000 \<le> of_int (jwks_cache_ttl demo_mw0)"
    by (simp add: demo_mw0_def)
  have elapsed: "(1301::real) - 1000 > of_int (jwks_cache_ttl demo_mw0)"
    by (simp add: demo_mw0_def)
  show ?thesis
    using uri stale refreshed within elapsed demo_signing_key demo_second_call
      one_fetch_per_ttl_window [OF uri stale demo_signing_key refreshed within demo_second_call
        elapsed demo_third_call]
    by (simp add: demo_third_call)
qed

section \<open>The verification algorithm\<close>

lemma get_signing_key_decode_update:
  "get_signing_key (L\<lparr>jwt_decode := f\<rparr>) net now kid mw = get_signing_key L net now kid mw"
  by (simp add: get_signing_key_def get_jwks_keys_def Let_def
      cong: sum.case_cong prod.case_cong option.case_cong if_cong)

lemma get_signing_key_header_update:
  "get_signing_key (L\<lparr>get_unverified_header := f\<rparr>) net now kid mw = get_signing_key L net now kid mw"
  by (simp add: get_signing_key_def get_jwks_keys_def Let_def
      cong: sum.case_cong prod.case_cong option.case_cong if_cong)

lemma kid_of_with_header_alg:
  "py_get (with_header_alg a hdr) ''kid'' JNull = py_get hdr ''kid'' JNull"
  by (cases hdr) (simp_all add: with_header_alg_def dict_get_def update_conv')

text \<open>
  C5. For every token the signature is verified with the allow-list \<^verbatim>\<open>['RS256']\<close> and
  nothing else: the outcome of \<^verbatim>\<open>validate_token\<close> does not depend on what the library
  would do with any other list of algorithms. The algorithm is not taken from the token:
  of the header the middleware reads the \<open>kid\<close> only, so two runs whose headers differ in
  the \<^verbatim>\<open>alg\<close> entry alone make the same calls with the same arguments and end alike.
\<close>

theorem verification_algorithm_is_fixed:
  "validate_token L net now tok mw =
     validate_token
       (L\<lparr>jwt_decode := \<lambda>a. jwt_decode L (a\<lparr>algorithms := [''RS256'']\<rparr>)\<rparr>) net now tok mw \<and>
   validate_token
       (L\<lparr>get_unverified_header :=
            \<lambda>t. map_sum id (with_header_alg alg) (get_unverified_header L t)\<rparr>) net now tok mw =
     validate_token L net now tok mw"
  by (simp add: validate_token_def get_signing_key_decode_update get_signing_key_header_update
      kid_of_with_header_alg split: sum.splits prod.splits)

section \<open>Initialization\<close>

lemma init_result:
  "init net mw =
     (case net (config_url mw) of
        Json doc \<Rightarrow> (Inr (), mw\<lparr>http_gets := http_gets mw @ [config_url mw], oidc_config := doc\<rparr>)
      | RequestFailed \<Rightarrow> (Inl RequestError, mw\<lparr>http_gets := http_gets mw @ [config_url mw]\<rparr>)
      | BadStatus \<Rightarrow> (Inl HTTPStatusError, mw\<lparr>http_gets := http_gets mw @ [config_url mw]\<rparr>)
      | NotJson \<Rightarrow> (Inl JSONDecodeError, mw\<lparr>http_gets := http_gets mw @ [config_url mw]\<rparr>))"
  by (simp add: init_def http_get_json_def split: http_outcome.splits)

text \<open>
  C8, as the code has it. \<^verbatim>\<open>init\<close> checks no field of the discovery document: it
  succeeds and stores the document whenever the request succeeds with a JSON body, whatever
  that body is. It fails only with the error of the HTTP exchange (request error, error
  status, body that is not JSON), and then the stored configuration is unchanged.
\<close>

theorem init_stores_any_document:
  "(net (config_url mw) = Json doc \<longrightarrow>
      init net mw =
        (Inr (), mw\<lparr>http_gets := http_gets mw @ [config_url mw], oidc_config := doc\<rparr>)) \<and>
   (fst (init net mw) = Inl e \<longrightarrow>
      (\<forall>d. net (config_url mw) \<noteq> Json d) \<and>
      e \<in> {RequestError, HTTPStatusError, JSONDecodeError} \<and>
      oidc_config (snd (init net mw)) = oidc_config mw)"
  by (auto simp: init_result split: http_outcome.splits)

theorem init_stores_any_document_witness:
  "(\<lambda>url. Json demo_discovery)
      (config_url (new_middleware ''http://idp'' ''r'' ''web-client'' 300 :: json KeycloakOIDCMiddleware)) =
     Json demo_discovery \<and>
   init (\<lambda>url. Json demo_discovery) (new_middleware ''http://idp'' ''r'' ''web-client'' 300) =
     (Inr (), demo_mw0) \<and>
   fst (init down_net (new_middleware ''http://idp'' ''r'' ''web-client'' 300 :: json KeycloakOIDCMiddleware)) =
     Inl RequestError \<and>
   oidc_config (snd (init down_net (new_middleware ''http://idp'' ''r'' ''web-client'' 300 :: json KeycloakOIDCMiddleware))) =
     JNull"
proof -
  have fails: "fst (init down_net (new_middleware ''http://idp'' ''r'' ''web-client'' 300 :: json KeycloakOIDCMiddleware)) =
     Inl RequestError"
    by (simp add: init_def http_get_json_def down_net_def)
  show ?thesis
    using fails
      init_stores_any_document [of "\<lambda>url. Json demo_discovery"
        "new_middleware ''http://idp'' ''r'' ''web-client'' 300 :: json KeycloakOIDCMiddleware"
        demo_discovery]
      init_stores_any_document [of down_net
        "new_middleware ''http://idp'' ''r'' ''web-client'' 300 :: json KeycloakOIDCMiddleware"
        _ RequestError]
    by (simp add: new_middleware_def config_url_def demo_mw0_def)
qed

text \<open>
  C8 as stated fails: the empty JSON object has neither \<^verbatim>\<open>issuer\<close> nor \<^verbatim>\<open>jwks_uri\<close>,
  and \<^verbatim>\<open>init\<close> succeeds and stores it.
\<close>

theorem init_accepts_empty_document_counterexample:
  "py_getitem (JObj []) ''issuer'' = Inl (KeyError ''issuer'') \<and>
   py_getitem (JObj []) ''jwks_uri'' = Inl (KeyError ''jwks_uri'') \<and>
   init (\<lambda>url. Json (JObj [])) (new_middleware ''http://idp'' ''r'' ''web-client'' 300 :: json KeycloakOIDCMiddleware) =
     (Inr (),
      (new_middleware ''http://idp'' ''r'' ''web-client'' 300)
        \<lparr>http_gets := [''http://idp/realms/r/.well-known/openid-configuration''],
         oidc_config := JObj []\<rparr>)"
  by (simp add: init_def http_get_json_def config_url_def new_middleware_def)

section \<open>The user record\<close>

lemma user_record_object:
  "user_record (JObj kvs) =
     (case dict_get kvs ''realm_access'' (JObj []) of
        JObj ra \<Rightarrow>
          Inr (JObj [(''id'', dict_get kvs ''sub'' JNull),
                     (''username'', dict_get kvs ''preferred_username'' JNull),
                     (''email'', dict_get kvs ''email'' JNull),
                     (''name'', dict_get kvs ''name'' JNull),
                     (''roles'', dict_get ra ''roles'' (JArr [])),
                     (''client_roles'', dict_get kvs ''resource_access'' (JObj [])),
                     (''token_payload'', JObj kvs)])
      | _ \<Rightarrow> Inl AttributeError)"
  by (simp add: user_record_def split: json.splits)

text \<open>
  C9, as the code has it. For a validated payload whose \<^verbatim>\<open>realm_access\<close> is absent or
  an object, \<^verbatim>\<open>get_current_user\<close> and \<^verbatim>\<open>_require_auth\<close> build the same record and do
  not fail: an absent \<^verbatim>\<open>sub\<close>, \<^verbatim>\<open>preferred_username\<close>, \<^verbatim>\<open>email\<close> or \<^verbatim>\<open>name\<close> gives
  \<^verbatim>\<open>None\<close>, absent roles give the empty list, an absent \<^verbatim>\<open>resource_access\<close> gives the
  empty dict, and every value that is present is passed on as it is. For a payload whose
  \<^verbatim>\<open>realm_access\<close> is present and not an object, both raise \<^verbatim>\<open>AttributeError\<close>.
\<close>

theorem principal_extraction:
  "(validate_token L net now tok mw = (Inr (JObj kvs), mw1) \<longrightarrow>
    dict_get kvs ''realm_access'' (JObj []) = JObj ra \<longrightarrow>
      get_current_user L net now (Some tok) mw =
        (Inr (JObj [(''id'', dict_get kvs ''sub'' JNull),
                    (''username'', dict_get kvs ''preferred_username'' JNull),
                    (''email'', dict_get kvs ''email'' JNull),
                    (''name'', dict_get kvs ''name'' JNull),
                    (''roles'', dict_get ra ''roles'' (JArr [])),
                    (''client_roles'', dict_get kvs ''resource_access'' (JObj [])),
                    (''token_payload'', JObj kvs)]), mw1) \<and>
      require_auth L net now (Some tok) mw = get_current_user L net now (Some tok) mw) \<and>
   (validate_token L net now tok mw = (Inr (JObj kvs), mw1) \<longrightarrow>
    \<not> is_object (dict_get kvs ''realm_access'' (JObj [])) \<longrightarrow>
      get_current_user L net now (Some tok) mw = (Inl AttributeError, mw1) \<and>
      require_auth L net now (Some tok) mw = (Inl AttributeError, mw1))"
  by (auto simp: get_current_user_def require_auth_def user_record_object split: json.splits)

theorem principal_extraction_witness:
  "validate_token demo_jose (jwks_net demo_jwks) 1000 ''token-k1'' demo_mw0 = (Inr demo_payload, demo_mw1) \<and>
   get_current_user demo_jose (jwks_net demo_jwks) 1000 (Some ''token-k1'') demo_mw0 =
     (Inr (JObj [(''id'', JStr ''u1''), (''username'', JNull), (''email'', JNull), (''name'', JNull),
                 (''roles'', JArr [JStr ''user'']), (''client_roles'', JObj []),
                 (''token_payload'', demo_payload)]), demo_mw1) \<and>
   require_auth demo_jose (jwks_net demo_jwks) 1000 (Some ''token-k1'') demo_mw0 =
     (Inr (JObj [(''id'', JStr ''u1''), (''username'', JNull), (''email'', JNull), (''name'', JNull),
                 (''roles'', JArr [JStr ''user'']), (''client_roles'', JObj []),
                 (''token_payload'', demo_payload)]), demo_mw1)"
proof -
  have v: "validate_token demo_jose (jwks_net demo_jwks) 1000 ''token-k1'' demo_mw0 =
      (Inr (JObj [(''sub'', JStr ''u1''), (''aud'', JStr ''web-client''),
           (''iss'', JStr ''https://idp/realms/r''),
           (''realm_access'', JObj [(''roles'', JArr [JStr ''user''])])]), demo_mw1)"
    using demo_validate by (simp add: demo_payload_def)
  show ?thesis
    using v principal_extraction [of demo_jose "jwks_net demo_jwks" 1000 "''token-k1''" demo_mw0
      "[(''sub'', JStr ''u1''), (''aud'', JStr ''web-client''),
           (''iss'', JStr ''https://idp/realms/r''),
           (''realm_access'', JObj [(''roles'', JArr [JStr ''user''])])]" demo_mw1
      "[(''roles'', JArr [JStr ''user''])]"]
    by (simp add: dict_get_def demo_payload_def)
qed

text \<open>
  C9 as stated fails: with \<^verbatim>\<open>realm_access\<close> a string, or \<^verbatim>\<open>null\<close>, building the record
  raises; and a \<^verbatim>\<open>resource_access\<close> that is not an object is passed on as it is, not
  replaced by an empty value.
\<close>

theorem principal_extraction_counterexample:
  "user_record (JObj [(''sub'', JStr ''u1''), (''realm_access'', JStr ''admin'')]) = Inl AttributeError \<and>
   user_record (JObj [(''sub'', JStr ''u1''), (''realm_access'', JNull)]) = Inl AttributeError \<and>
   user_record (JObj [(''sub'', JStr ''u1''), (''resource_access'', JStr ''x'')]) =
     Inr (JObj [(''id'', JStr ''u1''), (''username'', JNull), (''email'', JNull), (''name'', JNull),
                (''roles'', JArr []), (''client_roles'', JStr ''x''),
                (''token_payload'', JObj [(''sub'', JStr ''u1''), (''resource_access'', JStr ''x'')])])"
  by (simp add: user_record_def dict_get_def)

section \<open>Optional authentication\<close>

lemma demo_garbage:
  "validate_token demo_jose down_net 1000 ''garbage'' demo_mw0 =
     (Inl (HTTPException 401 (Token_validation_failed (Jose_msg ''Error decoding token headers.''))), demo_mw0)"
  by (simp add: validate_token_def demo_header)

lemma demo_down:
  "validate_token demo_jose down_net 1000 ''token-k1'' demo_mw0 =
     (Inl RequestError, demo_mw0\<lparr>http_gets := http_gets demo_mw0 @ [''https://idp/realms/r/jwks'']\<rparr>)"
  by (simp add: validate_token_def demo_header dict_get_def get_signing_key_def get_jwks_keys_def
      fetch_jwks_def http_get_json_def on_fetch_error_def down_net_def demo_mw0_def demo_discovery_def)

text \<open>
  C10, as the code has it. \<^verbatim>\<open>get_current_user\<close> returns \<^verbatim>\<open>None\<close> when there are no
  credentials and when \<^verbatim>\<open>validate_token\<close> raises an \<^verbatim>\<open>HTTPException\<close> (its 401 for any
  \<^verbatim>\<open>JWTError\<close>), so that the two cannot be told apart. Any other exception of
  \<^verbatim>\<open>validate_token\<close> passes through to the caller.
\<close>

theorem optional_auth_outcomes:
  "get_current_user L net now None mw = (Inr JNull, mw) \<and>
   (validate_token L net now tok mw = (Inl (HTTPException c d), mw1) \<longrightarrow>
      get_current_user L net now (Some tok) mw = (Inr JNull, mw1)) \<and>
   (validate_token L net now tok mw = (Inl e, mw1) \<longrightarrow> \<not> is_HTTPException e \<longrightarrow>
      get_current_user L net now (Some tok) mw = (Inl e, mw1))"
  by (simp add: get_current_user_def)

theorem optional_auth_outcomes_witness:
  "get_current_user demo_jose down_net 1000 None demo_mw0 = (Inr JNull, demo_mw0) \<and>
   validate_token demo_jose down_net 1000 ''garbage'' demo_mw0 =
     (Inl (HTTPException 401 (Token_validation_failed (Jose_msg ''Error decoding token headers.''))), demo_mw0) \<and>
   get_current_user demo_jose down_net 1000 (Some ''garbage'') demo_mw0 = (Inr JNull, demo_mw0) \<and>
   validate_token demo_jose down_net 1000 ''token-k1'' demo_mw0 =
     (Inl RequestError, demo_mw0\<lparr>http_gets := http_gets demo_mw0 @ [''https://idp/realms/r/jwks'']\<rparr>) \<and>
   get_current_user demo_jose down_net 1000 (Some ''token-k1'') demo_mw0 =
     (Inl RequestError, demo_mw0\<lparr>http_gets := http_gets demo_mw0 @ [''https://idp/realms/r/jwks'']\<rparr>)"
  using demo_garbage demo_down
    optional_auth_outcomes [of demo_jose down_net 1000 demo_mw0 "''garbage''" 401
      "Token_validation_failed (Jose_msg ''Error decoding token headers.'')" demo_mw0]
    optional_auth_outcomes [of demo_jose down_net 1000 demo_mw0 "''token-k1''" _ _
      "demo_mw0\<lparr>http_gets := http_gets demo_mw0 @ [''https://idp/realms/r/jwks'']\<rparr>" RequestError]
  by simp

text \<open>
  C10 as stated fails: with no key cached and the JWKS endpoint unreachable, the request
  error of the fetch is not a \<^verbatim>\<open>JWTError\<close>; it leaves \<^verbatim>\<open>validate_token\<close> as it is and
  \<^verbatim>\<open>get_current_user\<close> raises it.
\<close>

theorem optional_auth_raises_counterexample:
  "get_current_user demo_jose down_net 1000 (Some ''token-k1'') demo_mw0 =
     (Inl RequestError, demo_mw0\<lparr>http_gets := http_gets demo_mw0 @ [''https://idp/realms/r/jwks'']\<rparr>)"
  by (simp add: get_current_user_def demo_down)

section \<open>Failure while the key set is rebuilt\<close>

text \<open>
  Two facts about a refresh that goes as intended: when the fetch itself fails, the cached
  keys are untouched and served; when the whole document parses, the cache becomes exactly
  the keys of the document.
\<close>

lemma stale_keys_served_on_fetch_failure:
  assumes "jwks_keys mw \<noteq> []"
    and "now - jwks_last_fetch mw > of_int (jwks_cache_ttl mw)"
    and "fetch_jwks net mw = (Inl e, mw1)"
  shows "get_jwks_keys L net now mw = (Inr (jwks_keys mw), mw1) \<and> jwks_keys mw1 = jwks_keys mw"
proof -
  have keys: "jwks_keys mw1 = jwks_keys mw"
    using assms(3) by (rule fetch_jwks_keys)
  have "get_jwks_keys L net now mw = on_fetch_error e mw1"
    using assms(2,3) by (rule get_jwks_keys_fetch_failed)
  with keys assms(1) show ?thesis
    by (simp add: on_fetch_error_def)
qed

lemma refresh_replaces_key_set:
  assumes "now - jwks_last_fetch mw > of_int (jwks_cache_ttl mw)"
    and "fetch_jwks net mw = (Inr doc, mw1)"
    and "py_getitem doc ''keys'' = Inr keys"
    and "py_iter keys = Inr entries"
    and "load_keys (jwk_construct L) entries [] = (None, ks)"
  shows "get_jwks_keys L net now mw = (Inr ks, mw1\<lparr>jwks_keys := ks, jwks_last_fetch := now\<rparr>)"
  using assms by (simp add: get_jwks_keys_def)

text \<open>
  C2 fails on the code. Line 66 empties the cache before the entries are parsed, so an
  entry that does not parse leaves the cache with the entries stored before it. Here the
  cache holds \<open>k1\<close>, and the provider answers with \<open>k2\<close>, an entry without key type, and
  \<open>k4\<close>: the call returns, and leaves as the cache, the one key \<open>k2\<close>, which is neither
  the previous key set nor the fetched one; \<open>jwks_last_fetch\<close> is not advanced.
\<close>

theorem partial_key_set_after_parse_error:
  "get_jwks_keys demo_jose
     (jwks_net (JObj [(''keys'', JArr [JObj [(''kid'', JStr ''k2''), (''kty'', JStr ''RSA'')],
                                        JObj [(''kid'', JStr ''k3'')],
                                        JObj [(''kid'', JStr ''k4''), (''kty'', JStr ''RSA'')]])]))
     2000 demo_mw1 =
     (Inr [(KStr ''k2'', JObj [(''kid'', JStr ''k2''), (''kty'', JStr ''RSA'')])],
      demo_mw1\<lparr>jwks_keys := [(KStr ''k2'', JObj [(''kid'', JStr ''k2''), (''kty'', JStr ''RSA'')])],
               http_gets := http_gets demo_mw1 @ [''https://idp/realms/r/jwks'']\<rparr>) \<and>
   jwks_keys demo_mw1 = [(KStr ''k1'', demo_key)]"
  by (simp add: get_jwks_keys_def fetch_jwks_def http_get_json_def on_fetch_error_def
      demo_mw0_def demo_mw1_def demo_discovery_def jwks_net_def demo_jose_def dict_get_def)

text \<open>
  C3 fails on the code for a parse error. The cache holds \<open>k1\<close> and is stale, and the
  JWKS endpoint answers with a JSON document that has no \<^verbatim>\<open>keys\<close>: the cache has been
  emptied by then, so the handler finds no cached key, the \<^verbatim>\<open>KeyError\<close> is raised for
  \<open>k1\<close> and the cache stays empty. With the endpoint unreachable instead, the same call
  returns the stale key.
\<close>

theorem stale_keys_lost_after_parse_error:
  "map_of (jwks_keys demo_mw1) (KStr ''k1'') = Some demo_key \<and>
   get_signing_key demo_jose (jwks_net (JObj [(''error'', JStr ''unavailable'')])) 2000
       (JStr ''k1'') demo_mw1 =
     (Inl (KeyError ''keys''),
      demo_mw1\<lparr>jwks_keys := [],
               http_gets := http_gets demo_mw1 @ [''https://idp/realms/r/jwks'']\<rparr>) \<and>
   get_signing_key demo_jose down_net 2000 (JStr ''k1'') demo_mw1 =
     (Inr demo_key, demo_mw1\<lparr>http_gets := http_gets demo_mw1 @ [''https://idp/realms/r/jwks'']\<rparr>)"
  by (simp add: get_signing_key_def get_jwks_keys_def fetch_jwks_def http_get_json_def
      on_fetch_error_def demo_mw0_def demo_mw1_def demo_discovery_def jwks_net_def down_net_def
      demo_jose_def dict_get_def)

text \<open>
  C4 fails on the code for a refresh that fails while the entries are parsed. The
  middleware has never fetched a key; the first JWKS document has a good entry \<open>k2\<close>
  followed by an entry the library rejects. The loop has stored \<open>k2\<close> in the cache when
  the exception is raised, so the handler takes it for a cached key and drops the error:
  the lookup of \<open>k2\<close> returns a key, the lookup of any other \<open>kid\<close> raises the
  unknown-key error instead of the error of the refresh, and the partial key set stays.
\<close>

theorem first_refresh_parse_error_serves_partial_keys:
  "jwks_keys demo_mw0 = [] \<and>
   get_signing_key demo_jose
     (jwks_net (JObj [(''keys'', JArr [JObj [(''kid'', JStr ''k2''), (''kty'', JStr ''RSA''),
                                              (''alg'', JStr ''RS256'')],
                                        JObj [(''kid'', JStr ''k3'')]])]))
     1000 (JStr ''k2'') demo_mw0 =
     (Inr (JObj [(''kid'', JStr ''k2''), (''kty'', JStr ''RSA''), (''alg'', JStr ''RS256'')]),
      demo_mw0\<lparr>jwks_keys := [(KStr ''k2'', JObj [(''kid'', JStr ''k2''), (''kty'', JStr ''RSA''),
                                                  (''alg'', JStr ''RS256'')])],
               http_gets := http_gets demo_mw0 @ [''https://idp/realms/r/jwks'']\<rparr>) \<and>
   get_signing_key demo_jose
     (jwks_net (JObj [(''keys'', JArr [JObj [(''kid'', JStr ''k2''), (''kty'', JStr ''RSA''),
                                              (''alg'', JStr ''RS256'')],
                                        JObj [(''kid'', JStr ''k3'')]])]))
     1000 (JStr ''k1'') demo_mw0 =
     (Inl (JWTError (Key_not_found (JStr ''k1''))),
      demo_mw0\<lparr>jwks_keys := [(KStr ''k2'', JObj [(''kid'', JStr ''k2''), (''kty'', JStr ''RSA''),
                                                  (''alg'', JStr ''RS256'')])],
               http_gets := http_gets demo_mw0 @ [''https://idp/realms/r/jwks'']\<rparr>)"
  by (simp add: get_signing_key_def get_jwks_keys_def fetch_jwks_def http_get_json_def
      on_fetch_error_def demo_mw0_def demo_discovery_def jwks_net_def demo_jose_def dict_get_def)

end
